theory Spec2Isabelle
  imports Main "HOL-Library.AList" "HOL-Library.Sublist"
begin

section \<open>Values, rows and failures\<close>

text \<open>
  The plugin is TypeScript. Its offsets, row counts and counter values are integers in
  every run the plugin itself produces, so they are modelled as \<open>int\<close> (and the retry
  count, which starts at 0 and only grows by 1, as \<open>nat\<close>). The retry delay, a power
  of two times three, is the one number that can leave the range of a double; it has a
  type of its own, \<open>js_number\<close>, below.
  A JavaScript value of type \<open>any\<close> (a cell of a row, the result of \<open>JSON.parse\<close>) is a
  \<open>jsval\<close>; an object is a list of key/value pairs in insertion order, where assigning
  an existing key replaces its value in place (\<open>AList.update\<close>).
\<close>

datatype jsval =
    JUndefined
  | JNull
  | JBool bool
  | JNum int
  | JStr string
  | JArr "jsval list"
  | JObj "(string \<times> jsval) list"

type_synonym row = "(string \<times> jsval) list"

text \<open>
  Everything that can be thrown: \<open>new Error(msg)\<close> of the plugin, the \<open>TypeError\<close> of
  reading a property of \<open>null\<close> or \<open>undefined\<close>, the \<open>SyntaxError\<close> of \<open>JSON.parse\<close>,
  a failure of the database driver, a failure of the host's cache. \<open>OutsideModel\<close> is
  not an exception of the program: it marks an input on which the program would go on
  with a value the integer model has no representation for (\<open>NaN\<close>).
\<close>

datatype exn =
    Error string
  | TypeError
  | SyntaxError
  | PgError string
  | CacheError string
  | OutsideModel string

definition EVENTS_PER_BATCH :: int where
  "EVENTS_PER_BATCH = 10"

definition REDIS_OFFSET_KEY :: string where
  "REDIS_OFFSET_KEY = ''import_offset''"

text \<open>\<open>unquotedIdentifier.replace(/[^\w\d_.]+/g, '')\<close>: keep letters, digits, \<open>_\<close> and \<open>.\<close>.\<close>

definition is_identifier_char :: "char \<Rightarrow> bool" where
  "is_identifier_char c =
     (let n = (of_char c :: nat) in
      if 48 \<le> n \<and> n \<le> 57 then True
      else if 65 \<le> n \<and> n \<le> 90 then True
      else if 97 \<le> n \<and> n \<le> 122 then True
      else if n = 95 then True
      else n = 46)"

definition sanitizeSqlIdentifier :: "string \<Rightarrow> string" where
  "sanitizeSqlIdentifier unquotedIdentifier = filter is_identifier_char unquotedIdentifier"

section \<open>The database driver and the query executor\<close>

text \<open>
  The two query shapes of the plugin, with the identifiers already sanitised and the
  bound parameter and the limit as numbers:
  \<open>SELECT COUNT(1) FROM t\<close> and \<open>SELECT * FROM t ORDER BY c OFFSET $1 LIMIT 10\<close>.
\<close>

datatype query =
    CountQuery string
  | BatchQuery string string int int

record QueryResult =
  rows :: "row list"

record ExecuteQueryResponse =
  error :: "exn option"
  queryResult :: "QueryResult option"

text \<open>
  The \<open>pg\<close> client is outside the repository; its behaviour is a parameter. Each of
  \<open>connect()\<close>, \<open>query(q, values)\<close> and \<open>end()\<close> either resolves or rejects with an
  exception (\<open>Some e\<close>, \<open>Inl e\<close>).
\<close>

record pg_client =
  connect :: "exn option"
  query_fn :: "query \<Rightarrow> exn + QueryResult"
  end_fn :: "exn option"

datatype pg_call = Connect | Query query | End

text \<open>
  \<open>executeQuery\<close> (index.ts 129-156). \<open>await pgClient.connect()\<close> stands before the
  \<open>try\<close>, and \<open>await pgClient.end()\<close> after it: only a rejection of \<open>query\<close> is caught.
  The result is the list of driver calls made, and either the exception that left the
  function (\<open>Inl\<close>) or the response it returned.
\<close>

definition executeQuery :: "pg_client \<Rightarrow> query \<Rightarrow> pg_call list \<times> (exn + ExecuteQueryResponse)" where
  "executeQuery pgClient q =
     (case connect pgClient of
        Some e \<Rightarrow> ([Connect], Inl e)
      | None \<Rightarrow>
          (let response =
                 (case query_fn pgClient q of
                    Inl err \<Rightarrow> \<lparr>error = Some err, queryResult = None\<rparr>
                  | Inr r \<Rightarrow> \<lparr>error = None, queryResult = Some r\<rparr>)
           in case end_fn pgClient of
                Some e \<Rightarrow> ([Connect, Query q, End], Inl e)
              | None \<Rightarrow> ([Connect, Query q, End], Inr response)))"

section \<open>Payloads, events and the plugin's state\<close>

record ImportEventsJobPayload =
  offset :: "int option"
  retriesPerformedSoFar :: nat

record TransformedPluginEvent =
  event :: jsval
  properties :: "(string \<times> jsval) list"

type_synonym transform = "row \<Rightarrow> exn + TransformedPluginEvent"

text \<open>
  The delay of \<open>runIn(seconds, 'seconds')\<close> is a JavaScript number, a double. The delays
  the plugin computes are the constant 10 and \<open>2 ** k * 3\<close>: a double holds \<open>2 ^ k\<close> and
  \<open>3 * 2 ^ k\<close> exactly as long as they are finite, and an operation whose exact result
  reaches the overflow threshold \<open>2 ^ 1024 - 2 ^ 970\<close> returns \<open>Infinity\<close>. So a delay is
  an integer held exactly, or \<open>Infinity\<close>.
\<close>

datatype js_number = Finite int | PosInfinity

definition js_overflow :: "int \<Rightarrow> js_number" where
  "js_overflow x = (if x < 2 ^ 1024 - 2 ^ 970 then Finite x else PosInfinity)"

text \<open>\<open>2 ** k\<close> for a retry count \<open>k\<close>, and \<open>x * n\<close> for a positive integer \<open>n\<close>.\<close>

definition js_pow2 :: "nat \<Rightarrow> js_number" where
  "js_pow2 k = js_overflow (2 ^ k)"

definition js_times :: "js_number \<Rightarrow> int \<Rightarrow> js_number" where
  "js_times x n = (case x of Finite a \<Rightarrow> js_overflow (a * n) | PosInfinity \<Rightarrow> PosInfinity)"

datatype run_at = RunNow | RunIn js_number

text \<open>The console output, one constructor per \<open>console.log\<close>/\<open>console.error\<close> of the job.\<close>

datatype log_entry =
    LogSkipped int int
  | LogOffset int int
  | LogDone "string option"
  | LogRetry int int js_number "exn option"
  | LogEvent TransformedPluginEvent
  | LogProcessed int int nat

record globals =
  initialOffset :: int
  totalRows :: int

text \<open>
  The state the plugin reads and writes: \<open>global\<close>, the host's cache (the fast counter
  store) and storage (the durable store), and what the plugin has done to the outside:
  the jobs it has scheduled and that have not run yet, the console output, the events
  handed to \<open>posthog.capture\<close>, and the driver calls.
\<close>

record world =
  global :: globals
  cache :: "string \<rightharpoonup> int"
  storage :: "string \<rightharpoonup> int"
  jobs :: "(ImportEventsJobPayload \<times> run_at) list"
  logs :: "log_entry list"
  captured :: "TransformedPluginEvent list"
  pg_calls :: "pg_call list"

text \<open>\<open>cache.incr(key)\<close>: atomic increment, a missing key counts as 0; returns the new value.\<close>

definition cache_incr :: "(string \<rightharpoonup> int) \<Rightarrow> string \<Rightarrow> int \<times> (string \<rightharpoonup> int)" where
  "cache_incr c k =
     (let v = (case c k of None \<Rightarrow> 0 | Some n \<Rightarrow> n) + 1 in (v, c(k \<mapsto> v)))"

text \<open>\<open>store.get(key, default)\<close> of the cache and of the storage.\<close>

definition store_get :: "(string \<rightharpoonup> int) \<Rightarrow> string \<Rightarrow> int \<Rightarrow> int" where
  "store_get m k d = (case m k of None \<Rightarrow> d | Some v \<Rightarrow> v)"

text \<open>JavaScript truthiness of \<open>payload.offset\<close>: absent and \<open>0\<close> are both falsy.\<close>

definition truthy :: "int option \<Rightarrow> bool" where
  "truthy v = (case v of None \<Rightarrow> False | Some n \<Rightarrow> n \<noteq> 0)"

section \<open>The batch import job\<close>

text \<open>How one invocation of the job ended: one of its three \<open>return\<close>s, or an exception.\<close>

datatype outcome = Abandoned | Done | Rescheduled | Threw exn

text \<open>
  The loop \<open>for (const row of rows) eventsToIngest.push(await transformations[name].transform(row, meta))\<close>.
  The registry lookup happens once per row: an unknown name throws only when there is a row.
\<close>

fun transform_rows :: "transform option \<Rightarrow> row list \<Rightarrow> exn + TransformedPluginEvent list" where
  "transform_rows t [] = Inr []"
| "transform_rows t (r # rs) =
     (case t of
        None \<Rightarrow> Inl TypeError
      | Some f \<Rightarrow>
          (case f r of
             Inl e \<Rightarrow> Inl e
           | Inr ev \<Rightarrow>
               (case transform_rows t rs of
                  Inl e \<Rightarrow> Inl e
                | Inr evs \<Rightarrow> Inr (ev # evs))))"

text \<open>\<open>!queryResponse || queryResponse.error || !queryResponse.queryResult\<close> (index.ts 197).\<close>

definition fetch_failed :: "ExecuteQueryResponse \<Rightarrow> bool" where
  "fetch_failed queryResponse =
     (case error queryResponse of
        Some e \<Rightarrow> True
      | None \<Rightarrow> (case queryResult queryResponse of None \<Rightarrow> True | Some r \<Rightarrow> False))"

text \<open>
  index.ts 197-229, what the job does with the executor's response. The failure branch
  logs and schedules the retry with \<open>{...payload, retriesPerformedSoFar: n + 1}\<close>, to
  run in \<open>2 ** retriesPerformedSoFar * 3\<close> seconds (a double), and has
  no \<open>return\<close>: control goes on to \<open>queryResponse.queryResult!.rows\<close>, which throws a
  \<open>TypeError\<close> when \<open>queryResult\<close> is \<open>null\<close>.
\<close>

definition ingest :: "transform option \<Rightarrow> ImportEventsJobPayload \<Rightarrow> int \<Rightarrow>
    ExecuteQueryResponse \<Rightarrow> world \<Rightarrow> outcome \<times> world" where
  "ingest t payload offs queryResponse w =
     (let w1 =
        (if fetch_failed queryResponse then
           (let nextRetrySeconds = js_times (js_pow2 (retriesPerformedSoFar payload)) 3 in
            w\<lparr>logs := logs w @ [LogRetry offs (offs + EVENTS_PER_BATCH) nextRetrySeconds
                                   (error queryResponse)],
              jobs := jobs w @
                [(payload\<lparr>retriesPerformedSoFar := retriesPerformedSoFar payload + 1\<rparr>,
                  RunIn nextRetrySeconds)]\<rparr>)
         else w)
      in case queryResult queryResponse of
           None \<Rightarrow> (Threw TypeError, w1)
         | Some r \<Rightarrow>
             (case transform_rows t (rows r) of
                Inl e \<Rightarrow> (Threw e, w1)
              | Inr eventsToIngest \<Rightarrow>
                  (Rescheduled,
                   w1\<lparr>logs := logs w1 @ map LogEvent eventsToIngest @
                               [LogProcessed offs (offs + EVENTS_PER_BATCH) (length eventsToIngest)],
                      captured := captured w1 @ eventsToIngest,
                      jobs := jobs w1 @
                        [(\<lparr>offset = None, retriesPerformedSoFar = 0\<rparr>, RunNow)]\<rparr>)))"

text \<open>
  index.ts 187-193: the batch query for an offset. A missing \<open>tableName\<close> or
  \<open>orderByColumn\<close> makes \<open>sanitizeSqlIdentifier\<close> call \<open>replace\<close> on \<open>undefined\<close>,
  a \<open>TypeError\<close> (\<open>None\<close> here).
\<close>

definition batch_query :: "(string \<rightharpoonup> string) \<Rightarrow> int \<Rightarrow> query option" where
  "batch_query config offs =
     (case config ''tableName'' of
        None \<Rightarrow> None
      | Some tableName \<Rightarrow>
          (case config ''orderByColumn'' of
             None \<Rightarrow> None
           | Some orderByColumn \<Rightarrow>
               Some (BatchQuery (sanitizeSqlIdentifier tableName)
                       (sanitizeSqlIdentifier orderByColumn) offs EVENTS_PER_BATCH)))"

text \<open>\<open>transformations[config.transformationName]\<close>; \<open>None\<close> is \<open>undefined\<close>.\<close>

definition lookup_transform :: "(string \<rightharpoonup> transform) \<Rightarrow> (string \<rightharpoonup> string) \<Rightarrow> transform option" where
  "lookup_transform transformations config =
     (case config ''transformationName'' of
        None \<Rightarrow> None
      | Some name \<Rightarrow> transformations name)"

text \<open>
  index.ts 179-195: the completion check, then the batch query through the executor.
  An exception that leaves the executor leaves the job.
\<close>

definition fetch :: "pg_client \<Rightarrow> (string \<rightharpoonup> transform) \<Rightarrow> (string \<rightharpoonup> string) \<Rightarrow>
    ImportEventsJobPayload \<Rightarrow> int \<Rightarrow> world \<Rightarrow> outcome \<times> world" where
  "fetch pg transformations config payload offs w0 =
     (let w = w0\<lparr>logs := logs w0 @ [LogOffset offs (totalRows (global w0))]\<rparr> in
      if offs > totalRows (global w) then
        (Done, w\<lparr>logs := logs w @ [LogDone (config ''tableName'')]\<rparr>)
      else
        (case batch_query config offs of
           None \<Rightarrow> (Threw TypeError, w)
         | Some q \<Rightarrow>
             (let (calls, res) = executeQuery pg q;
                  w' = w\<lparr>pg_calls := pg_calls w @ calls\<rparr>
              in case res of
                   Inl e \<Rightarrow> (Threw e, w')
                 | Inr queryResponse \<Rightarrow>
                     ingest (lookup_transform transformations config)
                       payload offs queryResponse w')))"

text \<open>
  index.ts 171-177: the offset of this invocation. A truthy \<open>payload.offset\<close> is reused;
  otherwise the counter is incremented once and the offset is
  \<open>global.initialOffset + (redisIncrementedOffset - 1) * EVENTS_PER_BATCH\<close>.
  \<open>offset_value\<close> reads \<open>payload.offset\<close> as a number, where it is truthy.
\<close>

definition offset_value :: "ImportEventsJobPayload \<Rightarrow> int" where
  "offset_value payload = (case offset payload of None \<Rightarrow> 0 | Some n \<Rightarrow> n)"

definition allocate :: "ImportEventsJobPayload \<Rightarrow> world \<Rightarrow> int \<times> world" where
  "allocate payload w =
     (if truthy (offset payload) then (offset_value payload, w)
      else
        (let (redisIncrementedOffset, c) = cache_incr (cache w) REDIS_OFFSET_KEY in
         (initialOffset (global w) + (redisIncrementedOffset - 1) * EVENTS_PER_BATCH,
          w\<lparr>cache := c\<rparr>)))"

text \<open>\<open>importAndIngestEvents\<close> (index.ts 158-229): the entry guard, the offset, the rest.\<close>

definition importAndIngestEvents :: "pg_client \<Rightarrow> (string \<rightharpoonup> transform) \<Rightarrow>
    (string \<rightharpoonup> string) \<Rightarrow> ImportEventsJobPayload \<Rightarrow> world \<Rightarrow> outcome \<times> world" where
  "importAndIngestEvents pg transformations config payload w =
     (if truthy (offset payload) \<and> 15 \<le> retriesPerformedSoFar payload then
        (Abandoned,
         w\<lparr>logs := logs w @
              [LogSkipped (offset_value payload) (offset_value payload + EVENTS_PER_BATCH)]\<rparr>)
      else
        (let (offs, w1) = allocate payload w in
         fetch pg transformations config payload offs w1))"

section \<open>The transformation registry\<close>

text \<open>Reading a column of a row: a missing column is \<open>undefined\<close>.\<close>

definition get_column :: "row \<Rightarrow> string \<Rightarrow> jsval" where
  "get_column r k = (case map_of r k of None \<Rightarrow> JUndefined | Some v \<Rightarrow> v)"

definition digit_char :: "nat \<Rightarrow> char" where
  "digit_char n = char_of (48 + n)"

function show_nat :: "nat \<Rightarrow> string" where
  "show_nat n = (if n < 10 then [digit_char n] else show_nat (n div 10) @ [digit_char (n mod 10)])"
  by pat_completeness auto
termination
  by (relation "measure id") auto

declare show_nat.simps [simp del]

text \<open>
  The own enumerable properties that the object spread \<open>...v\<close> copies: those of an
  object, the indices of an array or of a string, nothing for the other values.
\<close>

fun spread_entries :: "jsval \<Rightarrow> (string \<times> jsval) list" where
  "spread_entries (JObj kvs) = kvs"
| "spread_entries (JArr vs) = zip (map show_nat [0..<length vs]) vs"
| "spread_entries (JStr s) = zip (map show_nat [0..<length s]) (map (\<lambda>c. JStr [c]) s)"
| "spread_entries v = []"

definition assign_all :: "(string \<times> jsval) list \<Rightarrow> (string \<times> jsval) list \<Rightarrow> (string \<times> jsval) list" where
  "assign_all obj kvs = foldl (\<lambda>acc (k, v). AList.update k v acc) obj kvs"

text \<open>
  The \<open>default\<close> transformation (index.ts 235-250). \<open>JSON.parse\<close> is a builtin of the
  language, taken as the parameter \<open>JSON_parse\<close>; a \<open>SyntaxError\<close> it throws leaves the
  transformation. The object literal is built in the order it is written:
  \<open>timestamp\<close>, \<open>distinct_id\<close>, the spread of the parsed properties, then \<open>source\<close>.
\<close>

definition transform_default :: "(jsval \<Rightarrow> exn + jsval) \<Rightarrow> transform" where
  "transform_default JSON_parse r =
     (let timestamp = get_column r ''timestamp'';
          distinct_id = get_column r ''distinct_id'';
          ev = get_column r ''event'';
          props = get_column r ''properties''
      in case JSON_parse props of
           Inl e \<Rightarrow> Inl e
         | Inr parsed \<Rightarrow>
             Inr \<lparr>event = ev,
                  properties =
                    AList.update ''source'' (JStr ''redshift_import'')
                      (assign_all [(''timestamp'', timestamp), (''distinct_id'', distinct_id)]
                         (spread_entries parsed))\<rparr>)"

text \<open>
  The registry (index.ts 234-284), looked up by name. The transformation of the second
  entry, \<open>JSON Map\<close>, is the parameter \<open>json_map\<close>.
\<close>

definition transformations :: "(jsval \<Rightarrow> exn + jsval) \<Rightarrow> transform \<Rightarrow> (string \<rightharpoonup> transform)" where
  "transformations JSON_parse json_map name =
     (if name = ''default'' then Some (transform_default JSON_parse)
      else if name = ''JSON Map'' then Some json_map
      else None)"

section \<open>Lifecycle hooks\<close>

definition is_digit :: "char \<Rightarrow> bool" where
  "is_digit c = (let n = (of_char c :: nat) in 48 \<le> n \<and> n \<le> 57)"

fun read_digits :: "nat \<Rightarrow> string \<Rightarrow> nat \<times> string" where
  "read_digits acc [] = (acc, [])"
| "read_digits acc (c # cs) =
     (if is_digit c then read_digits (10 * acc + (of_char c - 48)) cs else (acc, c # cs))"

text \<open>
  \<open>Number(v)\<close> for the values the integer model covers: a number, a string of decimal
  digits (the driver returns \<open>COUNT\<close> as such a string), \<open>null\<close>, a boolean.
\<close>

definition to_number :: "jsval \<Rightarrow> exn + int" where
  "to_number v =
     (case v of
        JNum n \<Rightarrow> Inr n
      | JStr s \<Rightarrow>
          (if s \<noteq> [] \<and> list_all is_digit s then Inr (int (fst (read_digits 0 s)))
           else Inl (OutsideModel ''Number''))
      | JNull \<Rightarrow> Inr 0
      | JBool b \<Rightarrow> Inr (if b then 1 else 0)
      | _ \<Rightarrow> Inl (OutsideModel ''Number''))"

text \<open>\<open>Number(queryResult.rows[0].count)\<close>; \<open>rows[0]\<close> is \<open>undefined\<close> when there is no row.\<close>

definition count_of :: "QueryResult \<Rightarrow> exn + int" where
  "count_of r =
     (case rows r of
        [] \<Rightarrow> Inl TypeError
      | first # rest \<Rightarrow> to_number (get_column first ''count''))"

definition requiredConfigOptions :: "string list" where
  "requiredConfigOptions = [''clusterHost'', ''clusterPort'', ''dbName'', ''dbUsername'', ''dbPassword'']"

text \<open>
  index.ts 88-117, after the count query has succeeded with \<open>count\<close> rows: the ceiling,
  the historical snapshot, the durable offset, the counter's seed, the first job.
  \<open>!totalRowsSnapshot\<close> holds for a missing snapshot and for a snapshot of 0.
  \<open>cache_set_throws\<close> is what \<open>cache.set\<close> throws, if it does.
\<close>

definition startImport :: "exn option \<Rightarrow> (string \<rightharpoonup> string) \<Rightarrow> int \<Rightarrow> world \<Rightarrow> exn option \<times> world" where
  "startImport cache_set_throws config count w =
     (let w1 = w\<lparr>global := (global w)\<lparr>totalRows := count\<rparr>\<rparr>;
          w2 =
            (if config ''importMechanism'' = Some ''Only import historical data'' then
               (let totalRowsSnapshot = storage w1 ''total_rows_snapshot'' in
                if truthy totalRowsSnapshot then
                  w1\<lparr>global := (global w1)\<lparr>totalRows := store_get (storage w1) ''total_rows_snapshot'' 0\<rparr>\<rparr>
                else
                  w1\<lparr>storage := (storage w1)(''total_rows_snapshot'' \<mapsto> count)\<rparr>)
             else w1);
          offs = store_get (storage w2) REDIS_OFFSET_KEY 0;
          w3 = w2\<lparr>global := (global w2)\<lparr>initialOffset := offs\<rparr>\<rparr>
      in case cache_set_throws of
           Some e \<Rightarrow> (Some e, w3)
         | None \<Rightarrow>
             (None,
              w3\<lparr>cache := (cache w3)(REDIS_OFFSET_KEY \<mapsto> offs div EVENTS_PER_BATCH),
                 jobs := jobs w3 @ [(\<lparr>offset = None, retriesPerformedSoFar = 0\<rparr>, RunIn (Finite 10))]\<rparr>))"

text \<open>
  \<open>setupPlugin\<close> (index.ts 64-118). The result is the exception that aborted startup, if
  any, and the state at that point.
\<close>

definition setupPlugin :: "pg_client \<Rightarrow> exn option \<Rightarrow> (string \<rightharpoonup> string) \<Rightarrow> world \<Rightarrow> exn option \<times> world" where
  "setupPlugin pg cache_set_throws config w =
     (case find (\<lambda>option. config option = None) requiredConfigOptions of
        Some option \<Rightarrow> (Some (Error (''Required config option '' @ option @ '' is missing!'')), w)
      | None \<Rightarrow>
          (case config ''clusterHost'' of
             None \<Rightarrow> (Some TypeError, w)
           | Some clusterHost \<Rightarrow>
               if suffix ''redshift.amazonaws.com'' clusterHost then
                 (case config ''tableName'' of
                    None \<Rightarrow> (Some TypeError, w)
                  | Some tableName \<Rightarrow>
                      (let (calls, res) = executeQuery pg (CountQuery (sanitizeSqlIdentifier tableName));
                           w' = w\<lparr>pg_calls := pg_calls w @ calls\<rparr>
                       in case res of
                            Inl e \<Rightarrow> (Some e, w')
                          | Inr totalRowsResult \<Rightarrow>
                              if fetch_failed totalRowsResult then
                                (Some (Error ''Unable to connect to Redshift!''), w')
                              else
                                (case queryResult totalRowsResult of
                                   None \<Rightarrow> (Some (Error ''Unable to connect to Redshift!''), w')
                                 | Some r \<Rightarrow>
                                     (case count_of r of
                                        Inl e \<Rightarrow> (Some e, w')
                                      | Inr count \<Rightarrow> startImport cache_set_throws config count w'))))
               else (Some (Error ''Cluster host must be a valid AWS Redshift host''), w)))"

text \<open>\<open>teardownPlugin\<close> (index.ts 121-126).\<close>

definition teardownPlugin :: "world \<Rightarrow> world" where
  "teardownPlugin w =
     (let redisOffset = store_get (cache w) REDIS_OFFSET_KEY 0;
          workerOffset = redisOffset * EVENTS_PER_BATCH;
          offsetToStore = (if workerOffset > totalRows (global w) then totalRows (global w) else workerOffset)
      in w\<lparr>storage := (storage w)(REDIS_OFFSET_KEY \<mapsto> offsetToStore)\<rparr>)"

section \<open>A sequential host\<close>

text \<open>
  The host scheduler is outside the repository. For the scenarios, a host that runs the
  pending jobs one after the other in the order they were scheduled, at most \<open>n\<close> of
  them, and records each payload it ran with the outcome of the run.
\<close>

fun run_jobs :: "nat \<Rightarrow> pg_client \<Rightarrow> (string \<rightharpoonup> transform) \<Rightarrow> (string \<rightharpoonup> string) \<Rightarrow> world \<Rightarrow>
    (ImportEventsJobPayload \<times> outcome) list \<times> world" where
  "run_jobs 0 pg tfs config w = ([], w)"
| "run_jobs (Suc n) pg tfs config w =
     (case jobs w of
        [] \<Rightarrow> ([], w)
      | (payload, t) # pending \<Rightarrow>
          (let (out, w1) = importAndIngestEvents pg tfs config payload (w\<lparr>jobs := pending\<rparr>);
               (trace, w2) = run_jobs n pg tfs config w1
           in ((payload, out) # trace, w2)))"

text \<open>The offsets of the batch queries among the driver calls, in the order they were made.\<close>

fun fetched_offsets :: "pg_call list \<Rightarrow> int list" where
  "fetched_offsets [] = []"
| "fetched_offsets (Query (BatchQuery t c offs lim) # cs) = offs # fetched_offsets cs"
| "fetched_offsets (c # cs) = fetched_offsets cs"

section \<open>A JSON reader for the examples\<close>

text \<open>
  An instance for the parameter \<open>JSON_parse\<close>: a reader of JSON texts whose numbers are
  integers and whose strings have no escapes (objects, arrays, \<open>true\<close>, \<open>false\<close>,
  \<open>null\<close>, white space); any other text is rejected. The recursion is bounded by the
  length of the text. A repeated key keeps its first position and its last value, as in
  \<open>JSON.parse\<close>.
\<close>

definition is_ws :: "char \<Rightarrow> bool" where
  "is_ws c = (c = CHR '' '' \<or> c = CHR 0x0A \<or> c = CHR 0x0D \<or> c = CHR 0x09)"

definition skip_ws :: "string \<Rightarrow> string" where
  "skip_ws cs = dropWhile is_ws cs"

fun read_string :: "string \<Rightarrow> (string \<times> string) option" where
  "read_string [] = None"
| "read_string (c # cs) =
     (if c = CHR 0x22 then Some ([], cs)
      else if c = CHR 0x5C then None
      else if (of_char c :: nat) < 32 then None
      else (case read_string cs of
              None \<Rightarrow> None
            | Some (s, rest) \<Rightarrow> Some (c # s, rest)))"

definition read_number :: "string \<Rightarrow> (int \<times> string) option" where
  "read_number cs =
     (case cs of
        [] \<Rightarrow> None
      | c # rest \<Rightarrow>
          if \<not> is_digit c then None
          else if c = CHR ''0'' \<and> rest \<noteq> [] \<and> is_digit (hd rest) then None
          else (let (n, rest') = read_digits 0 cs in
                if rest' \<noteq> [] \<and> (hd rest' = CHR ''.'' \<or> hd rest' = CHR ''e'' \<or> hd rest' = CHR ''E'')
                then None
                else Some (int n, rest')))"

fun parse_value :: "nat \<Rightarrow> string \<Rightarrow> (jsval \<times> string) option"
  and parse_elements :: "nat \<Rightarrow> string \<Rightarrow> (jsval list \<times> string) option"
  and parse_members :: "nat \<Rightarrow> string \<Rightarrow> ((string \<times> jsval) list \<times> string) option" where
  "parse_value 0 cs = None"
| "parse_value (Suc n) cs =
     (case skip_ws cs of
        [] \<Rightarrow> None
      | c # rest \<Rightarrow>
          if c = CHR ''{'' then
            (case skip_ws rest of
               [] \<Rightarrow> None
             | d # rest' \<Rightarrow>
                 if d = CHR ''}'' then Some (JObj [], rest')
                 else (case parse_members n rest of
                         None \<Rightarrow> None
                       | Some (kvs, rest'') \<Rightarrow> Some (JObj (assign_all [] kvs), rest'')))
          else if c = CHR ''['' then
            (case skip_ws rest of
               [] \<Rightarrow> None
             | d # rest' \<Rightarrow>
                 if d = CHR '']'' then Some (JArr [], rest')
                 else (case parse_elements n rest of
                         None \<Rightarrow> None
                       | Some (vs, rest'') \<Rightarrow> Some (JArr vs, rest'')))
          else if c = CHR 0x22 then
            (case read_string rest of
               None \<Rightarrow> None
             | Some (s, rest') \<Rightarrow> Some (JStr s, rest'))
          else if c = CHR ''-'' then
            (case read_number rest of
               None \<Rightarrow> None
             | Some (i, rest') \<Rightarrow> Some (JNum (- i), rest'))
          else if is_digit c then
            (case read_number (c # rest) of
               None \<Rightarrow> None
             | Some (i, rest') \<Rightarrow> Some (JNum i, rest'))
          else if prefix ''true'' (c # rest) then Some (JBool True, drop 4 (c # rest))
          else if prefix ''false'' (c # rest) then Some (JBool False, drop 5 (c # rest))
          else if prefix ''null'' (c # rest) then Some (JNull, drop 4 (c # rest))
          else None)"
| "parse_elements 0 cs = None"
| "parse_elements (Suc n) cs =
     (case parse_value n cs of
        None \<Rightarrow> None
      | Some (v, rest) \<Rightarrow>
          (case skip_ws rest of
             [] \<Rightarrow> None
           | c # rest' \<Rightarrow>
               if c = CHR '']'' then Some ([v], rest')
               else if c = CHR '','' then
                 (case parse_elements n rest' of
                    None \<Rightarrow> None
                  | Some (vs, rest'') \<Rightarrow> Some (v # vs, rest''))
               else None))"
| "parse_members 0 cs = None"
| "parse_members (Suc n) cs =
     (case skip_ws cs of
        [] \<Rightarrow> None
      | q # rest \<Rightarrow>
          if q = CHR 0x22 then
            (case read_string rest of
               None \<Rightarrow> None
             | Some (k, rest1) \<Rightarrow>
                 (case skip_ws rest1 of
                    [] \<Rightarrow> None
                  | c # rest2 \<Rightarrow>
                      if c = CHR '':'' then
                        (case parse_value n rest2 of
                           None \<Rightarrow> None
                         | Some (v, rest3) \<Rightarrow>
                             (case skip_ws rest3 of
                                [] \<Rightarrow> None
                              | d # rest4 \<Rightarrow>
                                  if d = CHR ''}'' then Some ([(k, v)], rest4)
                                  else if d = CHR '','' then
                                    (case parse_members n rest4 of
                                       None \<Rightarrow> None
                                     | Some (kvs, rest5) \<Rightarrow> Some ((k, v) # kvs, rest5))
                                  else None))
                      else None))
          else None)"

definition json_parse :: "jsval \<Rightarrow> exn + jsval" where
  "json_parse v =
     (case v of
        JStr s \<Rightarrow>
          (case parse_value (Suc (length s)) s of
             None \<Rightarrow> Inl SyntaxError
           | Some (r, rest) \<Rightarrow> if skip_ws rest = [] then Inr r else Inl SyntaxError)
      | JNum n \<Rightarrow> Inr (JNum n)
      | JBool b \<Rightarrow> Inr (JBool b)
      | JNull \<Rightarrow> Inr JNull
      | _ \<Rightarrow> Inl SyntaxError)"

section \<open>Example environments\<close>

text \<open>A configuration that passes the startup validation, in continuous mode.\<close>

definition example_config :: "string \<rightharpoonup> string" where
  "example_config = map_of
     [(''clusterHost'', ''demo.abc123.eu-west-1.redshift.amazonaws.com''),
      (''clusterPort'', ''5439''),
      (''dbName'', ''dev''),
      (''tableName'', ''events''),
      (''dbUsername'', ''posthog''),
      (''dbPassword'', ''secret''),
      (''orderByColumn'', ''id''),
      (''transformationName'', ''default''),
      (''importMechanism'', ''Import continuously'')]"

definition historical_config :: "string \<rightharpoonup> string" where
  "historical_config = example_config(''importMechanism'' \<mapsto> ''Only import historical data'')"

text \<open>The registry of the examples; its \<open>JSON Map\<close> entry is never looked up by them.\<close>

definition example_registry :: "string \<rightharpoonup> transform" where
  "example_registry = transformations json_parse (\<lambda>r. Inl (Error ''Row to event mapping JSON file not provided!''))"

text \<open>A source table of \<open>n\<close> rows, row \<open>i\<close> holding the event \<open>signup\<close> of user \<open>i\<close>.\<close>

definition example_row :: "nat \<Rightarrow> row" where
  "example_row i =
     [(''event'', JStr ''signup''), (''timestamp'', JStr ''2021-03-01''),
      (''distinct_id'', JStr (show_nat i)), (''properties'', JStr ''{}'')]"

text \<open>
  A reachable database holding such a table: \<open>COUNT\<close> answers the number of rows as a
  decimal string, a batch query the rows from the offset on, at most \<open>limit\<close> of them.
\<close>

definition table_pg :: "nat \<Rightarrow> pg_client" where
  "table_pg n =
     \<lparr>connect = None,
      query_fn = (\<lambda>q. case q of
                    CountQuery t \<Rightarrow> Inr \<lparr>rows = [ [(''count'', JStr (show_nat n))] ]\<rparr>
                  | BatchQuery t c offs lim \<Rightarrow>
                      Inr \<lparr>rows = map example_row (take (nat lim) (drop (nat offs) [0..<n]))\<rparr>),
      end_fn = None\<rparr>"

text \<open>A database that accepts connections and fails every query.\<close>

definition failing_pg :: pg_client where
  "failing_pg = \<lparr>connect = None, query_fn = (\<lambda>q. Inl (PgError ''timeout'')), end_fn = None\<rparr>"

text \<open>A database that refuses connections.\<close>

definition unreachable_pg :: pg_client where
  "unreachable_pg =
     \<lparr>connect = Some (PgError ''ECONNREFUSED''), query_fn = (\<lambda>q. Inl (PgError ''not connected'')),
      end_fn = None\<rparr>"

text \<open>The state of a new process on a host whose cache and storage are empty.\<close>

definition fresh_world :: world where
  "fresh_world =
     \<lparr>global = \<lparr>initialOffset = 0, totalRows = 0\<rparr>, cache = Map.empty, storage = Map.empty,
      jobs = [], logs = [], captured = [], pg_calls = []\<rparr>"

text \<open>A database whose table can be counted while every batch query fails.\<close>

definition batch_failing_pg :: "nat \<Rightarrow> pg_client" where
  "batch_failing_pg n =
     \<lparr>connect = None,
      query_fn = (\<lambda>q. case q of
                    CountQuery t \<Rightarrow> Inr \<lparr>rows = [ [(''count'', JStr (show_nat n))] ]\<rparr>
                  | BatchQuery t c offs lim \<Rightarrow> Inl (PgError ''timeout'')),
      end_fn = None\<rparr>"

text \<open>
  A new process on the same host: \<open>global\<close> and the effects start empty, the durable
  storage and the cache are the host's.
\<close>

definition restart :: "world \<Rightarrow> world" where
  "restart w = fresh_world\<lparr>storage := storage w, cache := cache w\<rparr>"

text \<open>
  The state in which a job runs after a fresh start on a table of 25 rows: the ceiling is
  25, the initial offset 0, the counter seeded with 0, no job pending.
\<close>

definition running_world :: world where
  "running_world =
     fresh_world\<lparr>global := \<lparr>initialOffset = 0, totalRows = 25\<rparr>,
                 cache := [REDIS_OFFSET_KEY \<mapsto> 0]\<rparr>"

text \<open>
  A first life of the plugin on a table of 100 rows: a fresh start, two batches (the
  offsets 0 and 10), then shutdown.
\<close>

definition first_life :: world where
  "first_life =
     teardownPlugin
       (snd (run_jobs 2 (table_pg 100) example_registry example_config
          (snd (setupPlugin (table_pg 100) None example_config fresh_world))))"

text \<open>
  The row of the transformation example; its \<open>properties\<close> column holds the text
  \<open>{"a":1}\<close>, written character by character (\<open>0x22\<close> is the double quote).
\<close>

definition signup_properties_text :: string where
  "signup_properties_text = [CHR ''{'', CHR 0x22, CHR ''a'', CHR 0x22, CHR '':'', CHR ''1'', CHR ''}'']"

definition signup_row :: row where
  "signup_row =
     [(''event'', JStr ''signup''), (''timestamp'', JStr ''t''), (''distinct_id'', JStr ''u1''),
      (''properties'', JStr signup_properties_text)]"

text \<open>The event the default transformation makes of \<open>example_row i\<close>.\<close>

definition example_event :: "nat \<Rightarrow> TransformedPluginEvent" where
  "example_event i =
     \<lparr>event = JStr ''signup'',
      properties = [(''timestamp'', JStr ''2021-03-01''), (''distinct_id'', JStr (show_nat i)),
                    (''source'', JStr ''redshift_import'')]\<rparr>"

section \<open>The executor and the job, case by case\<close>

lemma executeQuery_returns:
  "connect pg = None \<Longrightarrow> end_fn pg = None \<Longrightarrow>
   executeQuery pg q =
     ([Connect, Query q, End],
      Inr (case query_fn pg q of
             Inl err \<Rightarrow> \<lparr>error = Some err, queryResult = None\<rparr>
           | Inr r \<Rightarrow> \<lparr>error = None, queryResult = Some r\<rparr>))"
  by (simp add: executeQuery_def)

lemma executeQuery_failed_response:
  assumes "executeQuery pg q = (calls, Inr resp)" and "fetch_failed resp"
  shows "queryResult resp = None"
  using assms
  by (auto simp: executeQuery_def fetch_failed_def Let_def split: option.splits sum.splits)

lemma job_abandoned:
  assumes "truthy (offset payload)" and "15 \<le> retriesPerformedSoFar payload"
  shows "importAndIngestEvents pg tfs config payload w =
           (Abandoned,
            w\<lparr>logs := logs w @
              [LogSkipped (offset_value payload) (offset_value payload + EVENTS_PER_BATCH)]\<rparr>)"
  using assms by (simp add: importAndIngestEvents_def)

lemma job_done:
  assumes "\<not> (truthy (offset payload) \<and> 15 \<le> retriesPerformedSoFar payload)"
    and "allocate payload w = (offs, w1)"
    and "offs > totalRows (global w1)"
  shows "importAndIngestEvents pg tfs config payload w =
           (Done, w1\<lparr>logs := logs w1 @
                     [LogOffset offs (totalRows (global w1)), LogDone (config ''tableName'')]\<rparr>)"
  using assms by (simp add: importAndIngestEvents_def fetch_def)

lemma job_fetch_failed:
  assumes "\<not> (truthy (offset payload) \<and> 15 \<le> retriesPerformedSoFar payload)"
    and "allocate payload w = (offs, w1)"
    and "\<not> offs > totalRows (global w1)"
    and "batch_query config offs = Some q"
    and "executeQuery pg q = (calls, Inr resp)"
    and "fetch_failed resp"
  shows "importAndIngestEvents pg tfs config payload w =
           (Threw TypeError,
            w1\<lparr>logs := logs w1 @ [LogOffset offs (totalRows (global w1)),
                    LogRetry offs (offs + EVENTS_PER_BATCH)
                      (js_times (js_pow2 (retriesPerformedSoFar payload)) 3) (error resp)],
               pg_calls := pg_calls w1 @ calls,
               jobs := jobs w1 @
                 [(payload\<lparr>retriesPerformedSoFar := retriesPerformedSoFar payload + 1\<rparr>,
                   RunIn (js_times (js_pow2 (retriesPerformedSoFar payload)) 3))]\<rparr>)"
  using assms executeQuery_failed_response[OF assms(5,6)]
  by (simp add: importAndIngestEvents_def fetch_def ingest_def Let_def)

lemma job_success:
  assumes "\<not> (truthy (offset payload) \<and> 15 \<le> retriesPerformedSoFar payload)"
    and "allocate payload w = (offs, w1)"
    and "\<not> offs > totalRows (global w1)"
    and "batch_query config offs = Some q"
    and "executeQuery pg q = (calls, Inr resp)"
    and "\<not> fetch_failed resp"
    and "queryResult resp = Some r"
    and "transform_rows (lookup_transform tfs config) (rows r) = Inr evs"
  shows "importAndIngestEvents pg tfs config payload w =
           (Rescheduled,
            w1\<lparr>logs := logs w1 @ [LogOffset offs (totalRows (global w1))] @ map LogEvent evs @
                    [LogProcessed offs (offs + EVENTS_PER_BATCH) (length evs)],
               pg_calls := pg_calls w1 @ calls,
               captured := captured w1 @ evs,
               jobs := jobs w1 @ [(\<lparr>offset = None, retriesPerformedSoFar = 0\<rparr>, RunNow)]\<rparr>)"
  using assms
  by (simp add: importAndIngestEvents_def fetch_def ingest_def)


lemma allocate_fresh:
  "\<not> truthy (offset payload) \<Longrightarrow>
   allocate payload w =
     (initialOffset (global w) + (store_get (cache w) REDIS_OFFSET_KEY 0 + 1 - 1) * EVENTS_PER_BATCH,
      w\<lparr>cache := (cache w)(REDIS_OFFSET_KEY \<mapsto> store_get (cache w) REDIS_OFFSET_KEY 0 + 1)\<rparr>)"
  by (simp add: allocate_def cache_incr_def store_get_def Let_def)

lemma allocate_pinned:
  "offset payload = Some n \<Longrightarrow> n \<noteq> 0 \<Longrightarrow> allocate payload w = (n, w)"
  by (simp add: allocate_def truthy_def offset_value_def)


lemma example_batch_query:
  "batch_query example_config offs = Some (BatchQuery ''events'' ''id'' offs 10)"
  by (simp add: batch_query_def example_config_def sanitizeSqlIdentifier_def
      is_identifier_char_def EVENTS_PER_BATCH_def)

lemma job_success_step:
  assumes "\<not> truthy (offset p)"
    and "cache w REDIS_OFFSET_KEY = Some k"
    and "initialOffset (global w) + k * 10 \<le> totalRows (global w)"
    and "batch_query config (initialOffset (global w) + k * 10) = Some q"
    and "connect pg = None" and "end_fn pg = None"
    and "query_fn pg q = Inr b"
    and "transform_rows (lookup_transform tfs config) (rows b) = Inr evs"
  shows "\<exists>w'. importAndIngestEvents pg tfs config p w = (Rescheduled, w') \<and>
           cache w' = (cache w)(REDIS_OFFSET_KEY \<mapsto> k + 1) \<and> global w' = global w \<and>
           storage w' = storage w \<and>
           jobs w' = jobs w @ [(\<lparr>offset = None, retriesPerformedSoFar = 0\<rparr>, RunNow)] \<and>
           pg_calls w' = pg_calls w @ [Connect, Query q, End] \<and>
           captured w' = captured w @ evs"
proof -
  let ?offs = "initialOffset (global w) + k * 10"
  let ?w1 = "w\<lparr>cache := (cache w)(REDIS_OFFSET_KEY \<mapsto> k + 1)\<rparr>"
  let ?resp = "\<lparr>error = None, queryResult = Some b\<rparr>"
  have a: "allocate p w = (?offs, ?w1)"
    using assms(1,2) by (simp add: allocate_fresh store_get_def EVENTS_PER_BATCH_def)
  have g: "\<not> (truthy (offset p) \<and> 15 \<le> retriesPerformedSoFar p)"
    using assms(1) by simp
  have c: "\<not> ?offs > totalRows (global ?w1)"
    using assms(3) by simp
  have e: "executeQuery pg q = ([Connect, Query q, End], Inr ?resp)"
    using assms(5,6,7) by (simp add: executeQuery_returns)
  have f: "\<not> fetch_failed ?resp"
    by (simp add: fetch_failed_def)
  have r: "queryResult ?resp = Some b"
    by simp
  show ?thesis
    using job_success[OF g a c assms(4) e f r assms(8)] by simp
qed

lemma job_done_step:
  assumes "\<not> truthy (offset p)"
    and "cache w REDIS_OFFSET_KEY = Some k"
    and "initialOffset (global w) + k * 10 > totalRows (global w)"
  shows "\<exists>w'. importAndIngestEvents pg tfs config p w = (Done, w') \<and>
           cache w' = (cache w)(REDIS_OFFSET_KEY \<mapsto> k + 1) \<and> global w' = global w \<and>
           storage w' = storage w \<and> jobs w' = jobs w \<and> pg_calls w' = pg_calls w \<and>
           captured w' = captured w \<and>
           logs w' = logs w @ [LogOffset (initialOffset (global w) + k * 10) (totalRows (global w)),
                               LogDone (config ''tableName'')]"
proof -
  let ?offs = "initialOffset (global w) + k * 10"
  let ?w1 = "w\<lparr>cache := (cache w)(REDIS_OFFSET_KEY \<mapsto> k + 1)\<rparr>"
  have a: "allocate p w = (?offs, ?w1)"
    using assms(1,2) by (simp add: allocate_fresh store_get_def EVENTS_PER_BATCH_def)
  have g: "\<not> (truthy (offset p) \<and> 15 \<le> retriesPerformedSoFar p)"
    using assms(1) by simp
  have c: "?offs > totalRows (global ?w1)"
    using assms(3) by simp
  show ?thesis
    using job_done[OF g a c] by simp
qed

lemma setup_succeeds:
  assumes "list_all (\<lambda>option. config option \<noteq> None) requiredConfigOptions"
    and "config ''clusterHost'' = Some host"
    and "suffix ''redshift.amazonaws.com'' host"
    and "config ''tableName'' = Some t"
    and "connect pg = None" and "end_fn pg = None"
    and "query_fn pg (CountQuery (sanitizeSqlIdentifier t)) = Inr r"
    and "count_of r = Inr count"
  shows "setupPlugin pg cache_set_throws config w =
           startImport cache_set_throws config count
             (w\<lparr>pg_calls := pg_calls w @
                 [Connect, Query (CountQuery (sanitizeSqlIdentifier t)), End]\<rparr>)"
proof -
  have "find (\<lambda>option. config option = None) requiredConfigOptions = None"
    using assms(1) by (simp add: find_None_iff list_all_iff)
  then show ?thesis
    using assms(2-8)
    by (simp add: setupPlugin_def executeQuery_returns fetch_failed_def)
qed

lemma startImport_fresh:
  assumes "storage w = Map.empty"
  shows "\<exists>w'. startImport None config count w = (None, w') \<and>
            initialOffset (global w') = 0 \<and> totalRows (global w') = count \<and>
            cache w' REDIS_OFFSET_KEY = Some 0 \<and>
            jobs w' = jobs w @ [(\<lparr>offset = None, retriesPerformedSoFar = 0\<rparr>, RunIn (Finite 10))] \<and>
            pg_calls w' = pg_calls w \<and> captured w' = captured w"
  using assms
  by (simp add: startImport_def Let_def truthy_def store_get_def EVENTS_PER_BATCH_def
      REDIS_OFFSET_KEY_def)




section \<open>Retry backoff\<close>






section \<open>The retry ceiling\<close>

text \<open>
  The entry guard, as written: a payload that carries a non-zero offset and has
  \<open>retriesPerformedSoFar >= 15\<close> is abandoned, the invocation logs the skipped range and
  does nothing else. The plugin builds payloads at three places (index.ts 117, 205 and
  228) and none of them sets \<open>offset\<close>, so no payload it runs meets the guard.
\<close>

lemma guard_abandons_pinned_payload:
  assumes "offset payload = Some n" and "n \<noteq> 0" and "15 \<le> retriesPerformedSoFar payload"
  shows "importAndIngestEvents pg tfs config payload w =
           (Abandoned, w\<lparr>logs := logs w @ [LogSkipped n (n + 10)]\<rparr>)"
  using assms job_abandoned[of payload pg tfs config w]
  by (simp add: truthy_def offset_value_def EVENTS_PER_BATCH_def)

text \<open>
  Claim C4 on a table of 1000 rows whose batch queries always fail. After a fresh start
  the host runs 17 jobs. Each is the retry scheduled by the one before, with
  \<open>retriesPerformedSoFar\<close> from 0 to 16 and never an offset; each fetches (a fresh offset,
  0 to 160), fails and schedules the next retry. None is abandoned: the runs with
  \<open>retriesPerformedSoFar = 15\<close> and \<open>16\<close> schedule a further retry like the others, and a
  retry with \<open>retriesPerformedSoFar = 17\<close> is pending at the end.
\<close>

theorem retry_ceiling_never_fires:
  "map (\<lambda>(p, out). (offset p, retriesPerformedSoFar p, out))
     (fst (run_jobs 17 (batch_failing_pg 1000) example_registry example_config
        (snd (setupPlugin (batch_failing_pg 1000) None example_config fresh_world)))) =
     map (\<lambda>k. (None, k, Threw TypeError)) [0..<17] \<and>
   fetched_offsets (pg_calls (snd (run_jobs 17 (batch_failing_pg 1000) example_registry
        example_config (snd (setupPlugin (batch_failing_pg 1000) None example_config fresh_world))))) =
     map (\<lambda>k. 10 * int k) [0..<17] \<and>
   jobs (snd (run_jobs 17 (batch_failing_pg 1000) example_registry example_config
        (snd (setupPlugin (batch_failing_pg 1000) None example_config fresh_world)))) =
     [(\<lparr>offset = None, retriesPerformedSoFar = 17\<rparr>, RunIn (Finite 196608))]"
  by code_simp

section \<open>The scenario of 25 rows\<close>

lemma example_rows_transform:
  "transform_rows (lookup_transform example_registry example_config) (map example_row xs) =
     Inr (map example_event xs)"
proof (induction xs)
  case Nil
  show ?case by simp
next
  case (Cons x xs)
  have p: "json_parse (JStr ''{}'') = Inr (JObj [])"
    by code_simp
  have l: "lookup_transform example_registry example_config = Some (transform_default json_parse)"
    by (simp add: lookup_transform_def example_registry_def example_config_def transformations_def)
  have "transform_default json_parse (example_row x) = Inr (example_event x)"
    using p by (simp add: transform_default_def example_row_def example_event_def get_column_def
        assign_all_def)
  then show ?case
    using Cons l by simp
qed

text \<open>
  Claim C6. A fresh start (empty durable storage, so no stored offset) on a table that
  \<open>COUNT\<close> reports as 25 rows, with a configuration that passes validation, a reachable
  database, and batches at the offsets 0, 10 and 20 that are fetched and transformed
  without failure. Startup succeeds and schedules the first job with no offset and
  \<open>retriesPerformedSoFar = 0\<close>. The host then runs four jobs: the first three fetch the
  offsets 0, 10 and 20, in that order, and each ends by scheduling one job, to run now,
  with no offset and \<open>retriesPerformedSoFar = 0\<close>; the fourth computes the offset 30,
  beyond the ceiling 25 (its console output is \<open>30 25\<close>, then the line that all rows
  are done), and ends without scheduling anything, so that no job is pending and nothing
  more runs, however long the host goes on (\<open>4 + n\<close> turns).
  The events delivered are those of the three batches, in order.
\<close>

theorem fresh_start_on_25_rows:
  assumes "list_all (\<lambda>option. config option \<noteq> None) requiredConfigOptions"
    and "config ''clusterHost'' = Some host"
    and "suffix ''redshift.amazonaws.com'' host"
    and "config ''tableName'' = Some t"
    and "connect pg = None" and "end_fn pg = None"
    and "query_fn pg (CountQuery (sanitizeSqlIdentifier t)) = Inr r"
    and "count_of r = Inr 25"
    and "storage w = Map.empty" and "jobs w = []" and "pg_calls w = []" and "captured w = []"
    and "batch_query config 0 = Some q0" and "query_fn pg q0 = Inr b0"
    and "transform_rows (lookup_transform tfs config) (rows b0) = Inr evs0"
    and "batch_query config 10 = Some q10" and "query_fn pg q10 = Inr b10"
    and "transform_rows (lookup_transform tfs config) (rows b10) = Inr evs10"
    and "batch_query config 20 = Some q20" and "query_fn pg q20 = Inr b20"
    and "transform_rows (lookup_transform tfs config) (rows b20) = Inr evs20"
  shows "\<exists>w0. setupPlugin pg None config w = (None, w0) \<and>
           jobs w0 = [(\<lparr>offset = None, retriesPerformedSoFar = 0\<rparr>, RunIn (Finite 10))] \<and>
           jobs (snd (run_jobs 1 pg tfs config w0)) =
             [(\<lparr>offset = None, retriesPerformedSoFar = 0\<rparr>, RunNow)] \<and>
           jobs (snd (run_jobs 2 pg tfs config w0)) =
             [(\<lparr>offset = None, retriesPerformedSoFar = 0\<rparr>, RunNow)] \<and>
           jobs (snd (run_jobs 3 pg tfs config w0)) =
             [(\<lparr>offset = None, retriesPerformedSoFar = 0\<rparr>, RunNow)] \<and>
           fst (run_jobs (4 + n) pg tfs config w0) =
             [(\<lparr>offset = None, retriesPerformedSoFar = 0\<rparr>, Rescheduled),
              (\<lparr>offset = None, retriesPerformedSoFar = 0\<rparr>, Rescheduled),
              (\<lparr>offset = None, retriesPerformedSoFar = 0\<rparr>, Rescheduled),
              (\<lparr>offset = None, retriesPerformedSoFar = 0\<rparr>, Done)] \<and>
           fetched_offsets (pg_calls (snd (run_jobs (4 + n) pg tfs config w0))) = [0, 10, 20] \<and>
           captured (snd (run_jobs (4 + n) pg tfs config w0)) = evs0 @ evs10 @ evs20 \<and>
           (\<exists>before. logs (snd (run_jobs (4 + n) pg tfs config w0)) =
                      before @ [LogOffset 30 25, LogDone (Some t)]) \<and>
           jobs (snd (run_jobs (4 + n) pg tfs config w0)) = []"
proof -
  let ?p = "\<lparr>offset = None, retriesPerformedSoFar = 0\<rparr>"
  let ?cq = "CountQuery (sanitizeSqlIdentifier t)"
  have nt: "\<not> truthy (offset ?p)" by (simp add: truthy_def)
  obtain w0 where s: "setupPlugin pg None config w = (None, w0)"
    and g0: "initialOffset (global w0) = 0" "totalRows (global w0) = 25"
    and c0: "cache w0 REDIS_OFFSET_KEY = Some 0"
    and j0: "jobs w0 = [(?p, RunIn (Finite 10))]"
    and p0: "pg_calls w0 = [Connect, Query ?cq, End]"
    and e0: "captured w0 = []"
    using startImport_fresh[of "w\<lparr>pg_calls := pg_calls w @ [Connect, Query ?cq, End]\<rparr>" config 25]
      setup_succeeds[OF assms(1-8), of None w] assms(9-12)
    by auto
  let ?v0 = "w0\<lparr>jobs := []\<rparr>"
  obtain w1 where r1: "importAndIngestEvents pg tfs config ?p ?v0 = (Rescheduled, w1)"
    and g1: "global w1 = global w0"
    and c1: "cache w1 REDIS_OFFSET_KEY = Some 1"
    and j1: "jobs w1 = [(?p, RunNow)]"
    and p1: "pg_calls w1 = [Connect, Query ?cq, End, Connect, Query q0, End]"
    and e1: "captured w1 = evs0"
    using job_success_step[of ?p ?v0 0 config q0 pg b0 tfs evs0] nt g0 c0 p0 e0 assms(5,6,13-15)
    by auto
  let ?v1 = "w1\<lparr>jobs := []\<rparr>"
  obtain w2 where r2: "importAndIngestEvents pg tfs config ?p ?v1 = (Rescheduled, w2)"
    and g2: "global w2 = global w0"
    and c2: "cache w2 REDIS_OFFSET_KEY = Some 2"
    and j2: "jobs w2 = [(?p, RunNow)]"
    and p2: "pg_calls w2 = [Connect, Query ?cq, End, Connect, Query q0, End, Connect, Query q10, End]"
    and e2: "captured w2 = evs0 @ evs10"
    using job_success_step[of ?p ?v1 1 config q10 pg b10 tfs evs10] nt g0 g1 c1 p1 e1 assms(5,6,16-18)
    by auto
  let ?v2 = "w2\<lparr>jobs := []\<rparr>"
  obtain w3 where r3: "importAndIngestEvents pg tfs config ?p ?v2 = (Rescheduled, w3)"
    and g3: "global w3 = global w0"
    and c3: "cache w3 REDIS_OFFSET_KEY = Some 3"
    and j3: "jobs w3 = [(?p, RunNow)]"
    and p3: "pg_calls w3 = [Connect, Query ?cq, End, Connect, Query q0, End, Connect, Query q10, End,
                            Connect, Query q20, End]"
    and e3: "captured w3 = evs0 @ evs10 @ evs20"
    using job_success_step[of ?p ?v2 2 config q20 pg b20 tfs evs20] nt g0 g2 c2 p2 e2 assms(5,6,19-21)
    by auto
  let ?v3 = "w3\<lparr>jobs := []\<rparr>"
  obtain w4 where r4: "importAndIngestEvents pg tfs config ?p ?v3 = (Done, w4)"
    and j4: "jobs w4 = []"
    and p4: "pg_calls w4 = pg_calls w3"
    and e4: "captured w4 = captured w3"
    and l4: "logs w4 = logs w3 @ [LogOffset 30 25, LogDone (Some t)]"
    using job_done_step[of ?p ?v3 3 pg tfs config] nt g0 g3 c3 assms(4)
    by auto
  have q0: "q0 = BatchQuery (sanitizeSqlIdentifier t) (sanitizeSqlIdentifier (the (config ''orderByColumn''))) 0 10"
    and q10: "q10 = BatchQuery (sanitizeSqlIdentifier t) (sanitizeSqlIdentifier (the (config ''orderByColumn''))) 10 10"
    and q20: "q20 = BatchQuery (sanitizeSqlIdentifier t) (sanitizeSqlIdentifier (the (config ''orderByColumn''))) 20 10"
    using assms(4,13,16,19)
    by (auto simp: batch_query_def EVENTS_PER_BATCH_def split: option.splits)
  have n1: "run_jobs 1 pg tfs config w0 = ([(?p, Rescheduled)], w1)"
    using j0 r1 j1 by (simp add: numeral_eq_Suc)
  have n2: "run_jobs 2 pg tfs config w0 = ([(?p, Rescheduled), (?p, Rescheduled)], w2)"
    using j0 r1 j1 r2 j2 by (simp add: numeral_eq_Suc)
  have n3: "run_jobs 3 pg tfs config w0 = ([(?p, Rescheduled), (?p, Rescheduled), (?p, Rescheduled)], w3)"
    using j0 r1 j1 r2 j2 r3 j3 by (simp add: numeral_eq_Suc)
  have four: "4 + n = Suc (Suc (Suc (Suc n)))" by simp
  have n4: "run_jobs (4 + n) pg tfs config w0 =
     ([(?p, Rescheduled), (?p, Rescheduled), (?p, Rescheduled), (?p, Done)], w4)"
    unfolding four using j0 r1 j1 r2 j2 r3 j3 r4 j4 by (cases n) simp_all
  show ?thesis
    using s j0 n1 n2 n3 n4 j1 j2 j3 j4 p4 p3 e4 e3 l4 q0 q10 q20 by simp
qed

theorem fresh_start_on_25_rows_witness:
  "fst (setupPlugin (table_pg 25) None example_config fresh_world) = None \<and>
   fst (run_jobs 4 (table_pg 25) example_registry example_config
          (snd (setupPlugin (table_pg 25) None example_config fresh_world))) =
     [(\<lparr>offset = None, retriesPerformedSoFar = 0\<rparr>, Rescheduled),
      (\<lparr>offset = None, retriesPerformedSoFar = 0\<rparr>, Rescheduled),
      (\<lparr>offset = None, retriesPerformedSoFar = 0\<rparr>, Rescheduled),
      (\<lparr>offset = None, retriesPerformedSoFar = 0\<rparr>, Done)] \<and>
   fetched_offsets (pg_calls (snd (run_jobs 4 (table_pg 25) example_registry example_config
          (snd (setupPlugin (table_pg 25) None example_config fresh_world))))) = [0, 10, 20] \<and>
   length (captured (snd (run_jobs 4 (table_pg 25) example_registry example_config
          (snd (setupPlugin (table_pg 25) None example_config fresh_world))))) = 25 \<and>
   jobs (snd (run_jobs 4 (table_pg 25) example_registry example_config
          (snd (setupPlugin (table_pg 25) None example_config fresh_world)))) = []"
proof -
  let ?r = "\<lparr>rows = [ [(''count'', JStr (show_nat 25))] ]\<rparr>"
  let ?b = "\<lambda>offs. \<lparr>rows = map example_row (take (nat 10) (drop (nat offs) [0..<25]))\<rparr>"
  let ?evs = "\<lambda>offs. map example_event (take (nat 10) (drop (nat offs) [0..<25]))"
  have h1: "list_all (\<lambda>option. example_config option \<noteq> None) requiredConfigOptions"
    by (simp add: example_config_def requiredConfigOptions_def)
  have h2: "example_config ''clusterHost'' = Some ''demo.abc123.eu-west-1.redshift.amazonaws.com''"
    by (simp add: example_config_def)
  have h3: "suffix ''redshift.amazonaws.com'' ''demo.abc123.eu-west-1.redshift.amazonaws.com''"
    by (simp add: suffix_to_prefix)
  have h4: "example_config ''tableName'' = Some ''events''"
    by (simp add: example_config_def)
  have h5: "connect (table_pg 25) = None" and h6: "end_fn (table_pg 25) = None"
    by (simp_all add: table_pg_def)
  have h7: "query_fn (table_pg 25) (CountQuery (sanitizeSqlIdentifier ''events'')) = Inr ?r"
    by (simp add: table_pg_def)
  have h8: "count_of ?r = Inr 25"
    by code_simp
  have h9: "storage fresh_world = Map.empty" and h10: "jobs fresh_world = []"
    and h11: "pg_calls fresh_world = []" and h12: "captured fresh_world = []"
    by (simp_all add: fresh_world_def)
  have q: "\<And>offs. query_fn (table_pg 25) (BatchQuery ''events'' ''id'' offs 10) = Inr (?b offs)"
    by (simp add: table_pg_def)
  have t: "\<And>offs. transform_rows (lookup_transform example_registry example_config) (rows (?b offs)) =
             Inr (?evs offs)"
    by (simp add: example_rows_transform)
  obtain w0 where s: "setupPlugin (table_pg 25) None example_config fresh_world = (None, w0)"
    and tr: "fst (run_jobs (4 + 0) (table_pg 25) example_registry example_config w0) =
       [(\<lparr>offset = None, retriesPerformedSoFar = 0\<rparr>, Rescheduled),
        (\<lparr>offset = None, retriesPerformedSoFar = 0\<rparr>, Rescheduled),
        (\<lparr>offset = None, retriesPerformedSoFar = 0\<rparr>, Rescheduled),
        (\<lparr>offset = None, retriesPerformedSoFar = 0\<rparr>, Done)]"
    and f: "fetched_offsets (pg_calls (snd (run_jobs (4 + 0) (table_pg 25) example_registry
              example_config w0))) = [0, 10, 20]"
    and c: "captured (snd (run_jobs (4 + 0) (table_pg 25) example_registry example_config w0)) =
              ?evs 0 @ ?evs 10 @ ?evs 20"
    and j: "jobs (snd (run_jobs (4 + 0) (table_pg 25) example_registry example_config w0)) = []"
    using fresh_start_on_25_rows[where n = 0, OF h1 h2 h3 h4 h5 h6 h7 h8 h9 h10 h11 h12
        example_batch_query q t example_batch_query q t example_batch_query q t]
    by blast
  show ?thesis
    using s tr f c j by simp
qed

section \<open>The default transformation\<close>

text \<open>
  Claim C9. The registry's entry \<open>default\<close> is the default transformation, and applied to
  the row \<open>{event: "signup", timestamp: "t", distinct_id: "u1", properties: "{\"a\":1}"}\<close>
  it returns the event named \<open>signup\<close> whose properties are, in this order,
  \<open>timestamp: "t"\<close>, \<open>distinct_id: "u1"\<close>, \<open>a: 1\<close> and \<open>source: "redshift_import"\<close>.
  \<open>JSON.parse\<close> is a parameter; the hypothesis says what it returns on the text
  \<open>{"a":1}\<close>.
\<close>

theorem default_transform_of_signup_row:
  assumes "JSON_parse (JStr signup_properties_text) = Inr (JObj [(''a'', JNum 1)])"
  shows "transformations JSON_parse json_map ''default'' = Some (transform_default JSON_parse) \<and>
         transform_default JSON_parse signup_row =
           Inr \<lparr>event = JStr ''signup'',
                properties = [(''timestamp'', JStr ''t''), (''distinct_id'', JStr ''u1''),
                              (''a'', JNum 1), (''source'', JStr ''redshift_import'')]\<rparr>"
  using assms
  by (simp add: transformations_def transform_default_def signup_row_def get_column_def
      assign_all_def)

theorem default_transform_of_signup_row_witness:
  "json_parse (JStr signup_properties_text) = Inr (JObj [(''a'', JNum 1)]) \<and>
   transform_default json_parse signup_row =
     Inr \<lparr>event = JStr ''signup'',
          properties = [(''timestamp'', JStr ''t''), (''distinct_id'', JStr ''u1''),
                        (''a'', JNum 1), (''source'', JStr ''redshift_import'')]\<rparr>"
proof -
  have h: "json_parse (JStr signup_properties_text) = Inr (JObj [(''a'', JNum 1)])"
    by code_simp
  show ?thesis
    using h default_transform_of_signup_row[of json_parse, OF h] by simp
qed

section \<open>A payload whose offset is 0\<close>



section \<open>Restart\<close>

text \<open>
  What the first job after a start allocates, for any durable offset \<open>X\<close>: setup stores
  \<open>X\<close> as the initial offset and seeds the counter with \<open>X div 10\<close>; the job increments
  the counter and adds \<open>(X div 10 + 1 - 1) * 10\<close> to the initial offset.
\<close>

lemma first_allocation_after_start:
  assumes "storage w REDIS_OFFSET_KEY = Some X"
    and "startImport None config count w = (e, w')"
  shows "fst (allocate \<lparr>offset = None, retriesPerformedSoFar = 0\<rparr> w') = X + (X div 10) * 10"
proof -
  have "initialOffset (global w') = X \<and> cache w' REDIS_OFFSET_KEY = Some (X div 10)"
    using assms
    by (auto simp: startImport_def Let_def store_get_def REDIS_OFFSET_KEY_def EVENTS_PER_BATCH_def
        split: if_splits)
  then show ?thesis
    by (simp add: allocate_fresh truthy_def store_get_def EVENTS_PER_BATCH_def)
qed

text \<open>
  Claim C1 at the durable offset 20. The first life fetches the offsets 0 and 10 and
  persists the offset 20 at shutdown. After the restart, setup loads 20 and seeds the
  counter with 2; the first job increments it to 3 and fetches at
  \<open>20 + (3 - 1) * 10 = 40\<close>, not at 20: the rows 20 to 39 are never fetched.
\<close>

theorem restart_at_offset_20_allocates_40:
  "fetched_offsets (pg_calls first_life) = [0, 10] \<and>
   storage first_life REDIS_OFFSET_KEY = Some 20 \<and>
   fst (setupPlugin (table_pg 100) None example_config (restart first_life)) = None \<and>
   cache (snd (setupPlugin (table_pg 100) None example_config (restart first_life)))
     REDIS_OFFSET_KEY = Some 2 \<and>
   fetched_offsets (pg_calls (snd (run_jobs 1 (table_pg 100) example_registry example_config
     (snd (setupPlugin (table_pg 100) None example_config (restart first_life)))))) = [40]"
  by code_simp

section \<open>A failed fetch\<close>

text \<open>
  Claim C2 at a payload without an offset. After a fresh start on a table of 25 rows
  whose batch queries fail, the first job allocates the offset 0 and gives it to the
  executor. The retry it schedules is \<open>{...payload, retriesPerformedSoFar: 1}\<close>, and the
  payload has no \<open>offset\<close> field: the retry carries no offset, and when it runs it
  allocates the next fresh offset, 10. The offset 0 is never fetched again.
\<close>

theorem retry_of_fresh_offset_is_not_pinned:
  "jobs (snd (run_jobs 1 (batch_failing_pg 25) example_registry example_config
      (snd (setupPlugin (batch_failing_pg 25) None example_config fresh_world)))) =
     [(\<lparr>offset = None, retriesPerformedSoFar = 1\<rparr>, RunIn (Finite 3))] \<and>
   fetched_offsets (pg_calls (snd (run_jobs 1 (batch_failing_pg 25) example_registry example_config
      (snd (setupPlugin (batch_failing_pg 25) None example_config fresh_world))))) = [0] \<and>
   fetched_offsets (pg_calls (snd (run_jobs 2 (batch_failing_pg 25) example_registry example_config
      (snd (setupPlugin (batch_failing_pg 25) None example_config fresh_world))))) = [0, 10]"
  by code_simp

text \<open>
  The part of claim C2 about payloads that do carry an offset holds: a non-zero offset
  below the retry ceiling is the offset given to the executor, and on a failed fetch the
  retry carries it again, with \<open>retriesPerformedSoFar\<close> one higher.
\<close>

lemma pinned_offset_is_retried:
  assumes "offset payload = Some n" and "n \<noteq> 0" and "retriesPerformedSoFar payload < 15"
    and "\<not> n > totalRows (global w)"
    and "batch_query config n = Some q"
    and "executeQuery pg q = (calls, Inr resp)"
    and "fetch_failed resp"
  shows "pg_calls (snd (importAndIngestEvents pg tfs config payload w)) = pg_calls w @ calls \<and>
         jobs (snd (importAndIngestEvents pg tfs config payload w)) =
           jobs w @ [(\<lparr>offset = Some n, retriesPerformedSoFar = retriesPerformedSoFar payload + 1\<rparr>,
                      RunIn (js_times (js_pow2 (retriesPerformedSoFar payload)) 3))]"
proof -
  have g: "\<not> (truthy (offset payload) \<and> 15 \<le> retriesPerformedSoFar payload)"
    using assms(3) by simp
  have a: "allocate payload w = (n, w)"
    using assms(1,2) by (rule allocate_pinned)
  show ?thesis
    using job_fetch_failed[OF g a assms(4-7), of tfs] assms(1) by simp
qed

text \<open>
  Claim C3 at the same input. The fetch of the first job fails: the job logs, schedules
  the retry, and, the failure branch having no \<open>return\<close>, goes on to read
  \<open>queryResponse.queryResult!.rows\<close> of a \<open>null\<close> result. The \<open>TypeError\<close> leaves the job.
  Nothing is transformed or delivered and no continuation is scheduled.
\<close>

theorem failed_fetch_throws_TypeError:
  "fst (importAndIngestEvents (batch_failing_pg 25) example_registry example_config
          \<lparr>offset = None, retriesPerformedSoFar = 0\<rparr> running_world) = Threw TypeError \<and>
   captured (snd (importAndIngestEvents (batch_failing_pg 25) example_registry example_config
          \<lparr>offset = None, retriesPerformedSoFar = 0\<rparr> running_world)) = [] \<and>
   jobs (snd (importAndIngestEvents (batch_failing_pg 25) example_registry example_config
          \<lparr>offset = None, retriesPerformedSoFar = 0\<rparr> running_world)) =
     [(\<lparr>offset = None, retriesPerformedSoFar = 1\<rparr>, RunIn (Finite 3))]"
  by code_simp

section \<open>The executor's boundary\<close>

text \<open>
  Claim C5 at a database that refuses the connection. \<open>await pgClient.connect()\<close> is not
  inside the \<open>try\<close>: the rejection leaves \<open>executeQuery\<close> as an exception, no
  \<open>{ error, queryResult }\<close> is returned, and \<open>pgClient.end()\<close> is not called.
\<close>

theorem connection_failure_leaves_executeQuery:
  "executeQuery unreachable_pg (CountQuery ''events'') = ([Connect], Inl (PgError ''ECONNREFUSED''))"
  by (simp add: executeQuery_def unreachable_pg_def)

text \<open>
  Once the connection is open and \<open>end()\<close> does not fail, the executor does what the
  claim says: a failure of the query comes back as the \<open>error\<close> of the response, and
  \<open>end()\<close> is the last driver call either way.
\<close>

lemma executeQuery_tags_query_failure:
  assumes "connect pg = None" and "end_fn pg = None"
  shows "\<exists>resp. executeQuery pg q = ([Connect, Query q, End], Inr resp) \<and>
           (case query_fn pg q of
              Inl err \<Rightarrow> error resp = Some err \<and> queryResult resp = None
            | Inr r \<Rightarrow> error resp = None \<and> queryResult resp = Some r)"
  using assms by (auto simp: executeQuery_def split: sum.splits)

section \<open>The historical snapshot\<close>

text \<open>
  Claim C8 at a snapshot of 0. In historical mode, a first start on an empty table
  records the snapshot 0. At the next start the table has 5 rows: \<open>!totalRowsSnapshot\<close>
  holds for 0, so the snapshot is taken again and the ceiling is 5, not the recorded 0.
\<close>

theorem snapshot_0_is_taken_again:
  "storage (snd (setupPlugin (table_pg 0) None historical_config fresh_world))
     ''total_rows_snapshot'' = Some 0 \<and>
   totalRows (global (snd (setupPlugin (table_pg 5) None historical_config
     (restart (snd (setupPlugin (table_pg 0) None historical_config fresh_world)))))) = 5 \<and>
   storage (snd (setupPlugin (table_pg 5) None historical_config
     (restart (snd (setupPlugin (table_pg 0) None historical_config fresh_world)))))
     ''total_rows_snapshot'' = Some 5"
  by code_simp

text \<open>
  For a recorded snapshot other than 0 the ceiling is the snapshot, whatever \<open>COUNT\<close>
  returns now, and the snapshot stays as it is.
\<close>

lemma recorded_snapshot_is_the_ceiling:
  assumes "config ''importMechanism'' = Some ''Only import historical data''"
    and "storage w ''total_rows_snapshot'' = Some snapshot" and "snapshot \<noteq> 0"
    and "startImport cache_set_throws config count w = (e, w')"
  shows "totalRows (global w') = snapshot \<and> storage w' ''total_rows_snapshot'' = Some snapshot"
  using assms
  by (auto simp: startImport_def Let_def truthy_def store_get_def split: option.splits)

end
